theory Spec2Isabelle
  imports Main "HOL-Library.Word"
begin

unbundle bit_operations_syntax

section \<open>Machine integers and C operators\<close>

text \<open>
  \<open>uint32_t\<close> and (for the bits that matter here) \<open>int\<close> are 32-bit words: \<open>+\<close>,
  \<open>-\<close> and \<open>*\<close> wrap around, \<open>x << n\<close> is \<open>push_bit n x\<close>, \<open>x >> n\<close> is
  \<open>drop_bit n x\<close>, \<open>~x\<close> is \<open>NOT x\<close>. \<open>uint8_t\<close> is an 8-bit word.
\<close>

type_synonym u32 = "32 word"
type_synonym u8 = "8 word"

text \<open>C's \<open>/\<close> on signed integers truncates towards zero.\<close>

definition c_div :: "int \<Rightarrow> int \<Rightarrow> int" where
  "c_div a b = sgn a * sgn b * (\<bar>a\<bar> div \<bar>b\<bar>)"

text \<open>
  \<open>p - q\<close> on two pointers to objects of \<open>sz\<close> bytes: the signed byte distance
  divided by the object size. (C defines it only when the distance is a multiple of the
  size; the quotient is truncated here, as the constant folding of the address
  expressions does.)
\<close>

definition ptr_diff :: "int \<Rightarrow> u32 \<Rightarrow> u32 \<Rightarrow> int" where
  "ptr_diff sz p q = c_div (sint (p - q)) sz"

section \<open>Register blocks\<close>

text \<open>
  The register structures of the vendor header, with the members the two source files
  use. Pointers to a register block are its byte address.
\<close>

record GPIO_TypeDef =
  MODER :: u32
  OTYPER :: u32
  OSPEEDR :: u32
  PUPDR :: u32
  AFR :: "nat \<Rightarrow> u32"

record USART_TypeDef =
  BRR :: u32
  CR1 :: u32
  CR2 :: u32

text \<open>
  The machine state: the RCC and SysTick registers the code names, and one typed heap
  per pointer type (\<open>GPIO_TypeDef *\<close>, \<open>USART_TypeDef *\<close>), indexed by address, so that
  two pointers to the same port alias.
\<close>

record mcu =
  RCC_CR :: u32
  RCC_PLLCFGR :: u32
  RCC_CFGR :: u32
  RCC_AHB1ENR :: u32
  RCC_APB1ENR :: u32
  RCC_APB2ENR :: u32
  SysTick_CTRL :: u32
  SysTick_LOAD :: u32
  SysTick_VAL :: u32
  GPIO :: "u32 \<Rightarrow> GPIO_TypeDef"
  USART :: "u32 \<Rightarrow> USART_TypeDef"

text \<open>\<open>p->MODER |= ...\<close> and the like: an update of the block at address \<open>p\<close>.\<close>

definition GPIO_upd :: "u32 \<Rightarrow> (GPIO_TypeDef \<Rightarrow> GPIO_TypeDef) \<Rightarrow> mcu \<Rightarrow> mcu" where
  "GPIO_upd p f s = s\<lparr>GPIO := (GPIO s)(p := f (GPIO s p))\<rparr>"

definition USART_upd :: "u32 \<Rightarrow> (USART_TypeDef \<Rightarrow> USART_TypeDef) \<Rightarrow> mcu \<Rightarrow> mcu" where
  "USART_upd p f s = s\<lparr>USART := (USART s)(p := f (USART s p))\<rparr>"

section \<open>Constants of the headers\<close>

subsection \<open>SysTick\<close>

text \<open>
  Modelled from the spec: the macro \<open>SYSTICK_RELOAD_VAL_MAX\<close> of the header
  \<open>rcc_aj_stm32f4.h\<close>, which is not among the sources; the timer's 24-bit full-scale
  value \<open>0x00FFFFFF\<close>.
\<close>

definition SYSTICK_RELOAD_VAL_MAX :: u32 where
  "SYSTICK_RELOAD_VAL_MAX = 0x00FFFFFF"

text \<open>
  Modelled from the spec: the macros \<open>RCC_SUCCESS_FLAG\<close> and \<open>RCC_FAIL_FLAG\<close> of the
  same header, a two-valued result; their numbers are not used by the code.
\<close>

datatype rcc_flag = RCC_SUCCESS_FLAG | RCC_FAIL_FLAG

text \<open>
  Modelled from the spec: the bit positions of the SysTick control register in the
  vendor's core header, which is not among the sources (enable, tick interrupt, clock
  source, count flag).
\<close>

definition SysTick_CTRL_ENABLE_Pos :: nat where "SysTick_CTRL_ENABLE_Pos = 0"
definition SysTick_CTRL_TICKINT_Pos :: nat where "SysTick_CTRL_TICKINT_Pos = 1"
definition SysTick_CTRL_CLKSOURCE_Pos :: nat where "SysTick_CTRL_CLKSOURCE_Pos = 2"

subsection \<open>RCC and GPIO constants\<close>

text \<open>
  Modelled from the spec: the bit positions, masks and base addresses of the vendor's
  register-definition header, which is not among the sources. Section 6 of the
  specification names the fields and their widths; the positions are those of the
  STM32F407 register map.
\<close>

definition RCC_AHB1ENR_GPIOAEN_Pos :: nat where "RCC_AHB1ENR_GPIOAEN_Pos = 0"
definition RCC_AHB1ENR_GPIOCEN_Pos :: nat where "RCC_AHB1ENR_GPIOCEN_Pos = 2"

definition GPIO_MODER_MODER8_Pos :: nat where "GPIO_MODER_MODER8_Pos = 16"
definition GPIO_MODER_MODER8_Msk :: u32 where
  "GPIO_MODER_MODER8_Msk = push_bit GPIO_MODER_MODER8_Pos 3"
definition GPIO_MODER_MODER9_Pos :: nat where "GPIO_MODER_MODER9_Pos = 18"
definition GPIO_MODER_MODER9_Msk :: u32 where
  "GPIO_MODER_MODER9_Msk = push_bit GPIO_MODER_MODER9_Pos 3"
definition GPIO_OSPEEDR_OSPEED8_Pos :: nat where "GPIO_OSPEEDR_OSPEED8_Pos = 16"
definition GPIO_OSPEEDR_OSPEED9_Pos :: nat where "GPIO_OSPEEDR_OSPEED9_Pos = 18"

definition RCC_CFGR_SW_Pos :: nat where "RCC_CFGR_SW_Pos = 0"
definition RCC_CFGR_SWS_Pos :: nat where "RCC_CFGR_SWS_Pos = 2"
definition RCC_CFGR_HPRE_Pos :: nat where "RCC_CFGR_HPRE_Pos = 4"
definition RCC_CFGR_HPRE_Msk :: u32 where
  "RCC_CFGR_HPRE_Msk = push_bit RCC_CFGR_HPRE_Pos 0xF"
definition RCC_CFGR_PPRE1_Msk :: u32 where "RCC_CFGR_PPRE1_Msk = push_bit 10 0x7"
definition RCC_CFGR_PPRE2_Msk :: u32 where "RCC_CFGR_PPRE2_Msk = push_bit 13 0x7"
definition RCC_CFGR_RTCPRE_Msk :: u32 where "RCC_CFGR_RTCPRE_Msk = push_bit 16 0x1F"
definition RCC_CFGR_MCO1_Pos :: nat where "RCC_CFGR_MCO1_Pos = 21"
definition RCC_CFGR_MCO1PRE_Pos :: nat where "RCC_CFGR_MCO1PRE_Pos = 24"
definition RCC_CFGR_MCO2PRE_Pos :: nat where "RCC_CFGR_MCO2PRE_Pos = 27"
definition RCC_CFGR_MCO2_Pos :: nat where "RCC_CFGR_MCO2_Pos = 30"

definition RCC_CR_HSION_Pos :: nat where "RCC_CR_HSION_Pos = 0"
definition RCC_CR_HSIRDY_Pos :: nat where "RCC_CR_HSIRDY_Pos = 1"
definition RCC_CR_HSEON_Pos :: nat where "RCC_CR_HSEON_Pos = 16"
definition RCC_CR_HSERDY_Pos :: nat where "RCC_CR_HSERDY_Pos = 17"
definition RCC_CR_PLLON_Pos :: nat where "RCC_CR_PLLON_Pos = 24"
definition RCC_CR_PLLRDY_Pos :: nat where "RCC_CR_PLLRDY_Pos = 25"

definition RCC_PLLCFGR_PLLM_Pos :: nat where "RCC_PLLCFGR_PLLM_Pos = 0"
definition RCC_PLLCFGR_PLLM_Msk :: u32 where
  "RCC_PLLCFGR_PLLM_Msk = push_bit RCC_PLLCFGR_PLLM_Pos 0x3F"
definition RCC_PLLCFGR_PLLN_Pos :: nat where "RCC_PLLCFGR_PLLN_Pos = 6"
definition RCC_PLLCFGR_PLLN_Msk :: u32 where
  "RCC_PLLCFGR_PLLN_Msk = push_bit RCC_PLLCFGR_PLLN_Pos 0x1FF"
definition RCC_PLLCFGR_PLLP_Pos :: nat where "RCC_PLLCFGR_PLLP_Pos = 16"
definition RCC_PLLCFGR_PLLP_Msk :: u32 where
  "RCC_PLLCFGR_PLLP_Msk = push_bit RCC_PLLCFGR_PLLP_Pos 0x3"
definition RCC_PLLCFGR_PLLSRC_Pos :: nat where "RCC_PLLCFGR_PLLSRC_Pos = 22"
definition RCC_PLLCFGR_PLLSRC_Msk :: u32 where
  "RCC_PLLCFGR_PLLSRC_Msk = push_bit RCC_PLLCFGR_PLLSRC_Pos 0x1"
definition RCC_PLLCFGR_PLLQ_Pos :: nat where "RCC_PLLCFGR_PLLQ_Pos = 24"
definition RCC_PLLCFGR_PLLQ_Msk :: u32 where
  "RCC_PLLCFGR_PLLQ_Msk = push_bit RCC_PLLCFGR_PLLQ_Pos 0xF"

definition GPIOA :: u32 where "GPIOA = 0x40020000"
definition GPIOB :: u32 where "GPIOB = 0x40020400"
definition GPIOC :: u32 where "GPIOC = 0x40020800"

text \<open>
  Modelled from the spec: the declarations of \<open>rcc_aj_stm32f4.h\<close>, which is not among
  the sources. The channel selector is an enumeration of two values. The clock-source
  and prescaler selectors of \<open>MCO_Config\<close> are enumerations too, but the code only
  shifts their integer value into the register, so they are \<open>u32\<close> here. The
  system-clock and PLL source selectors are \<open>int\<close> parameters compared with these
  macros; the code writes them unshifted into the SW and PLLSRC fields and compares the
  first with the SWS field, so the macros are the hardware encodings.
\<close>

datatype MCO_CHANNEL_e = MCO_CHANNEL_1 | MCO_CHANNEL_2

definition SYS_CLOCK_SOURCE_HSI :: u32 where "SYS_CLOCK_SOURCE_HSI = 0"
definition SYS_CLOCK_SOURCE_HSE :: u32 where "SYS_CLOCK_SOURCE_HSE = 1"
definition SYS_CLOCK_SOURCE_PLL :: u32 where "SYS_CLOCK_SOURCE_PLL = 2"
definition PLL_CLOCK_SRC_HSI :: u32 where "PLL_CLOCK_SRC_HSI = 0"
definition PLL_CLOCK_SRC_HSE :: u32 where "PLL_CLOCK_SRC_HSE = 1"

record RCC_PLL_CONFIG_PARAMS_t =
  PLLM :: u32
  PLLN :: u32
  PLLP :: u32
  PLLQ :: u32

record system_bus_clk_cfg_t =
  ppre1_apb1_pre :: u32
  ppre2_apb2_pre :: u32
  rtcpre_pre :: u32

section \<open>rcc\_aj\_stm32f4.c: clock output and bus clocks\<close>

text \<open>
  \<open>MCO_Config\<close>. Every statement is \<open>REG |= (REG & ~mask) | value\<close>, modelled as
  written: the register is or-ed with the masked copy of itself and the value.
\<close>

definition MCO_Config :: "MCO_CHANNEL_e \<Rightarrow> u32 \<Rightarrow> u32 \<Rightarrow> mcu \<Rightarrow> mcu" where
  "MCO_Config mco_channel mco_clock_source mco_prescaler s =
     (if MCO_CHANNEL_1 = mco_channel then
        let s1 = s\<lparr>RCC_AHB1ENR := RCC_AHB1ENR s OR push_bit RCC_AHB1ENR_GPIOAEN_Pos 1\<rparr>;
            s2 = GPIO_upd GPIOA (\<lambda>g. g\<lparr>MODER := MODER g OR
                   ((MODER g AND NOT GPIO_MODER_MODER8_Msk) OR
                    push_bit GPIO_MODER_MODER8_Pos 0x2)\<rparr>) s1;
            s3 = GPIO_upd GPIOA (\<lambda>g. g\<lparr>OSPEEDR := OSPEEDR g OR
                   push_bit GPIO_OSPEEDR_OSPEED8_Pos 3\<rparr>) s2;
            s4 = s3\<lparr>RCC_CFGR := RCC_CFGR s3 OR
                   ((RCC_CFGR s3 AND NOT (push_bit RCC_CFGR_MCO1_Pos 3)) OR
                    push_bit RCC_CFGR_MCO1_Pos mco_clock_source)\<rparr>;
            s5 = s4\<lparr>RCC_CFGR := RCC_CFGR s4 OR
                   ((RCC_CFGR s4 AND NOT (push_bit RCC_CFGR_MCO1PRE_Pos 7)) OR
                    push_bit RCC_CFGR_MCO1PRE_Pos mco_prescaler)\<rparr>
        in s5
      else if MCO_CHANNEL_2 = mco_channel then
        let s1 = s\<lparr>RCC_AHB1ENR := RCC_AHB1ENR s OR push_bit RCC_AHB1ENR_GPIOCEN_Pos 1\<rparr>;
            s2 = GPIO_upd GPIOC (\<lambda>g. g\<lparr>MODER := MODER g OR
                   ((MODER g AND NOT GPIO_MODER_MODER9_Msk) OR
                    push_bit GPIO_MODER_MODER9_Pos 2)\<rparr>) s1;
            s3 = GPIO_upd GPIOC (\<lambda>g. g\<lparr>OSPEEDR := OSPEEDR g OR
                   push_bit GPIO_OSPEEDR_OSPEED9_Pos 3\<rparr>) s2;
            s4 = s3\<lparr>RCC_CFGR := RCC_CFGR s3 OR
                   ((RCC_CFGR s3 AND NOT (push_bit RCC_CFGR_MCO2_Pos 3)) OR
                    push_bit RCC_CFGR_MCO2_Pos mco_clock_source)\<rparr>;
            s5 = s4\<lparr>RCC_CFGR := RCC_CFGR s4 OR
                   ((RCC_CFGR s4 AND NOT (push_bit RCC_CFGR_MCO2PRE_Pos 7)) OR
                    push_bit RCC_CFGR_MCO2PRE_Pos mco_prescaler)\<rparr>
        in s5
      else s)"

text \<open>
  \<open>system_clock_setting\<close>: three or-assignments to the clock-configuration register.
  The first parameter is not read.
\<close>

definition system_clock_setting :: "u32 \<Rightarrow> system_bus_clk_cfg_t \<Rightarrow> mcu \<Rightarrow> mcu" where
  "system_clock_setting sys_core_clock sys_bus_clk_cfg s =
     (let s1 = s\<lparr>RCC_CFGR := RCC_CFGR s OR
                  ((RCC_CFGR s AND NOT RCC_CFGR_PPRE1_Msk) OR
                   ppre1_apb1_pre sys_bus_clk_cfg)\<rparr>;
          s2 = s1\<lparr>RCC_CFGR := RCC_CFGR s1 OR
                  ((RCC_CFGR s1 AND NOT RCC_CFGR_PPRE2_Msk) OR
                   ppre2_apb2_pre sys_bus_clk_cfg)\<rparr>;
          s3 = s2\<lparr>RCC_CFGR := RCC_CFGR s2 OR
                  ((RCC_CFGR s2 AND NOT RCC_CFGR_RTCPRE_Msk) OR
                   rtcpre_pre sys_bus_clk_cfg)\<rparr>
      in s3)"

section \<open>rcc\_aj\_stm32f4.c: the system clock source\<close>

text \<open>
  The status flags the code polls are set by the hardware, not by the code. The
  hardware is a parameter \<open>hw\<close>: what it does to the registers between two reads of a
  polled register. A busy-wait \<open>while (!cond(REG));\<close> lets the hardware act, reads, and
  repeats until the condition holds; it may never come back, in which case the value is
  \<open>None\<close>.
\<close>

partial_function (option) wait_until :: "(mcu \<Rightarrow> mcu) \<Rightarrow> (mcu \<Rightarrow> bool) \<Rightarrow> mcu \<Rightarrow> mcu option" where
  "wait_until hw cond s =
     (if cond (hw s) then Some (hw s) else wait_until hw cond (hw s))"

declare wait_until.simps [code]

text \<open>
  The two or-assignments to \<open>RCC->CR\<close> that switch an oscillator on. Each occurs twice
  in the source, with the same text (once for the oscillator as system clock, once as
  PLL input).
\<close>

definition RCC_CR_switch_on_HSI :: "mcu \<Rightarrow> mcu" where
  "RCC_CR_switch_on_HSI s =
     s\<lparr>RCC_CR := RCC_CR s OR
        (push_bit RCC_CR_HSION_Pos 1 AND NOT (push_bit RCC_CR_HSEON_Pos 1) AND
         NOT (push_bit RCC_CR_PLLON_Pos 1))\<rparr>"

definition RCC_CR_switch_on_HSE :: "mcu \<Rightarrow> mcu" where
  "RCC_CR_switch_on_HSE s =
     s\<lparr>RCC_CR := RCC_CR s OR
        (push_bit RCC_CR_HSEON_Pos 1 AND NOT (push_bit RCC_CR_HSION_Pos 1) AND
         NOT (push_bit RCC_CR_PLLON_Pos 1))\<rparr>"

text \<open>The conditions of the busy-waits.\<close>

definition HSI_ready :: "mcu \<Rightarrow> bool" where
  "HSI_ready s = (push_bit RCC_CR_HSIRDY_Pos 1 AND RCC_CR s \<noteq> 0)"

definition HSE_ready :: "mcu \<Rightarrow> bool" where
  "HSE_ready s = (push_bit RCC_CR_HSERDY_Pos 1 AND RCC_CR s \<noteq> 0)"

definition PLL_ready :: "mcu \<Rightarrow> bool" where
  "PLL_ready s = (drop_bit RCC_CR_PLLRDY_Pos (RCC_CR s) AND 0x1 \<noteq> 0)"

definition clock_switched :: "u32 \<Rightarrow> mcu \<Rightarrow> bool" where
  "clock_switched system_clock_source s =
     (drop_bit RCC_CFGR_SWS_Pos (RCC_CFGR s) AND 0x3 = system_clock_source)"

text \<open>A null \<open>rcc_pll_config_param_t\<close> is \<open>None\<close>; dereferencing it is a fault.\<close>

datatype fault = Null_Dereference

text \<open>
  \<open>RCC_System_Clock_Source_Config\<close>, statement by statement. The result is \<open>None\<close>
  when a busy-wait never ends, a fault when the PLL branch is entered with a null
  parameter record, and otherwise the final registers with the caller's parameter
  record as the routine leaves it. The four counting loops \<open>for (i = 0; i < 15000;
  i++);\<close> touch a local variable only and are left out.
\<close>

definition RCC_System_Clock_Source_Config ::
  "(mcu \<Rightarrow> mcu) \<Rightarrow> u32 \<Rightarrow> u32 \<Rightarrow> RCC_PLL_CONFIG_PARAMS_t option \<Rightarrow> mcu \<Rightarrow>
   (fault + mcu \<times> RCC_PLL_CONFIG_PARAMS_t option) option" where
  "RCC_System_Clock_Source_Config hw system_clock_source pll_clock_source
       rcc_pll_config_param_t s =
     Option.bind
       (if SYS_CLOCK_SOURCE_HSI = system_clock_source then
          map_option (\<lambda>s1. Inr (s1, rcc_pll_config_param_t))
            (wait_until hw HSI_ready (RCC_CR_switch_on_HSI s))
        else if SYS_CLOCK_SOURCE_HSE = system_clock_source then
          map_option (\<lambda>s1. Inr (s1, rcc_pll_config_param_t))
            (wait_until hw HSE_ready (RCC_CR_switch_on_HSE s))
        else if SYS_CLOCK_SOURCE_PLL = system_clock_source then
          Option.bind
            (wait_until hw (\<lambda>t. \<not> PLL_ready t)
               (s\<lparr>RCC_CR := RCC_CR s AND NOT (push_bit RCC_CR_PLLON_Pos 1)\<rparr>))
            (\<lambda>s1. case rcc_pll_config_param_t of
                None \<Rightarrow> Some (Inl Null_Dereference)
              | Some p0 \<Rightarrow>
                  let p = p0\<lparr>PLLP := PLLP p0 div 2 - 1\<rparr> in
                  Option.bind
                    (if PLL_CLOCK_SRC_HSI = pll_clock_source then
                       wait_until hw HSI_ready (RCC_CR_switch_on_HSI s1)
                     else if PLL_CLOCK_SRC_HSE = pll_clock_source then
                       wait_until hw HSE_ready (RCC_CR_switch_on_HSE s1)
                     else Some s1)
                    (\<lambda>s2.
                       let s3 = s2\<lparr>RCC_PLLCFGR := RCC_PLLCFGR s2 AND
                                  (NOT RCC_PLLCFGR_PLLM_Msk AND NOT RCC_PLLCFGR_PLLN_Msk AND
                                   NOT RCC_PLLCFGR_PLLP_Msk AND NOT RCC_PLLCFGR_PLLQ_Msk AND
                                   NOT RCC_PLLCFGR_PLLSRC_Msk)\<rparr>;
                           s4 = s3\<lparr>RCC_PLLCFGR := RCC_PLLCFGR s3 OR
                                  (push_bit RCC_PLLCFGR_PLLM_Pos (PLLM p) OR
                                   push_bit RCC_PLLCFGR_PLLN_Pos (PLLN p) OR
                                   push_bit RCC_PLLCFGR_PLLP_Pos (PLLP p) OR
                                   push_bit RCC_PLLCFGR_PLLQ_Pos (PLLQ p) OR
                                   push_bit RCC_PLLCFGR_PLLSRC_Pos pll_clock_source)\<rparr>;
                           s5 = s4\<lparr>RCC_CFGR := RCC_CFGR s4 AND
                                  (NOT RCC_CFGR_HPRE_Msk AND NOT RCC_CFGR_PPRE1_Msk AND
                                   NOT RCC_CFGR_PPRE2_Msk)\<rparr>;
                           s6 = s5\<lparr>RCC_CR := RCC_CR s5 OR push_bit RCC_CR_PLLON_Pos 1\<rparr>
                       in map_option (\<lambda>s7. Inr (s7, Some p))
                            (wait_until hw PLL_ready s6)))
        else Some (Inr (s, rcc_pll_config_param_t)))
       (\<lambda>r. case r of
          Inl e \<Rightarrow> Some (Inl e)
        | Inr (s8, p8) \<Rightarrow>
            let s9 = s8\<lparr>RCC_CFGR := RCC_CFGR s8 OR
                       ((RCC_CFGR s8 AND NOT (push_bit RCC_CFGR_SW_Pos 3)) OR
                        push_bit RCC_CFGR_SW_Pos system_clock_source)\<rparr>
            in map_option
                 (\<lambda>s10. Inr (s10\<lparr>RCC_CFGR := RCC_CFGR s10 AND
                                   NOT (push_bit RCC_CFGR_HPRE_Pos 0xF)\<rparr>, p8))
                 (wait_until hw (clock_switched system_clock_source) s9))"


section \<open>rcc\_aj\_stm32f4.c: the system tick timer\<close>

text \<open>
  \<open>systick_config_init\<close>: the range check on \<open>ticks - 1\<close> (unsigned, so it wraps at
  \<open>ticks = 0\<close>), then four register writes. The result is the returned flag and the
  state.
\<close>

definition systick_config_init :: "u32 \<Rightarrow> u32 \<Rightarrow> mcu \<Rightarrow> rcc_flag \<times> mcu" where
  "systick_config_init interrupt_mode ticks s =
     (if ticks - 1 > SYSTICK_RELOAD_VAL_MAX then (RCC_FAIL_FLAG, s)
      else
        let s1 = s\<lparr>SysTick_CTRL := 0\<rparr>;
            s2 = s1\<lparr>SysTick_LOAD := ticks - 1\<rparr>;
            s3 = s2\<lparr>SysTick_VAL := 0\<rparr>;
            s4 = s3\<lparr>SysTick_CTRL := SysTick_CTRL s3 OR
                   (push_bit SysTick_CTRL_ENABLE_Pos 1 OR
                    push_bit SysTick_CTRL_TICKINT_Pos interrupt_mode OR
                    push_bit SysTick_CTRL_CLKSOURCE_Pos 1)\<rparr>
        in (RCC_SUCCESS_FLAG, s4))"

section \<open>rcc\_aj\_stm32f4.c: the busy-wait delays\<close>

text \<open>
  The delay routines do two things to the timer: they store to the current-value
  register and they read the control register, whose count flag the hardware sets and
  clears on its own. A timer is therefore a pair of operations on a hidden state
  \<open>'h\<close>: what a store to \<open>VAL\<close> does, and what a read of \<open>CTRL\<close> returns and does.
\<close>

record 'h SysTick_dev =
  write_VAL :: "u32 \<Rightarrow> 'h \<Rightarrow> 'h"
  read_CTRL :: "'h \<Rightarrow> u32 \<times> 'h"







text \<open>
  The register record of the other routines is one such timer: a store updates
  \<open>SysTick_VAL\<close>, a read lets the hardware act and returns \<open>SysTick_CTRL\<close>.
\<close>

definition mcu_SysTick :: "(mcu \<Rightarrow> mcu) \<Rightarrow> mcu SysTick_dev" where
  "mcu_SysTick hw =
     \<lparr>write_VAL = (\<lambda>v s. s\<lparr>SysTick_VAL := v\<rparr>),
      read_CTRL = (\<lambda>s. (SysTick_CTRL (hw s), hw s))\<rparr>"




section \<open>usart\_aj\_stm32f4.c\<close>

text \<open>
  Modelled from the spec: the USART base addresses, structure sizes and bit positions
  of the vendor's register-definition header, which is not among the sources (section
  6: two instances on APB2, four on APB1; the positions are those of the STM32F407
  register map).
\<close>

definition USART1 :: u32 where "USART1 = 0x40011000"
definition USART2 :: u32 where "USART2 = 0x40004400"
definition USART3 :: u32 where "USART3 = 0x40004800"
definition UART4 :: u32 where "UART4 = 0x40004C00"
definition UART5 :: u32 where "UART5 = 0x40005000"
definition USART6 :: u32 where "USART6 = 0x40011400"

definition sizeof_USART_TypeDef :: int where "sizeof_USART_TypeDef = 28"
definition sizeof_GPIO_TypeDef :: int where "sizeof_GPIO_TypeDef = 40"

definition RCC_APB2ENR_USART1EN_Pos :: nat where "RCC_APB2ENR_USART1EN_Pos = 4"
definition RCC_APB1ENR_USART2EN_Pos :: nat where "RCC_APB1ENR_USART2EN_Pos = 17"

definition USART_CR1_RE_Pos :: nat where "USART_CR1_RE_Pos = 2"
definition USART_CR1_PS_Pos :: nat where "USART_CR1_PS_Pos = 9"
definition USART_CR1_PCE_Pos :: nat where "USART_CR1_PCE_Pos = 10"
definition USART_CR1_M_Pos :: nat where "USART_CR1_M_Pos = 12"
definition USART_CR1_UE_Pos :: nat where "USART_CR1_UE_Pos = 13"
definition USART_CR1_OVER8_Pos :: nat where "USART_CR1_OVER8_Pos = 15"
definition USART_CR2_STOP_Pos :: nat where "USART_CR2_STOP_Pos = 12"

text \<open>
  Modelled from the spec: the declarations of \<open>usart_aj_stm32f4.h\<close>, which is not
  among the sources. The status code and the communication mode are two-valued
  enumerations. The other selectors are cast to \<open>uint32_t\<close> and shifted into control
  register 1 or 2, so the record holds their integer value; the enumerators the code
  compares them with are the values that use forces (the mode is written at the
  receive-enable bit with the transmit-enable bit above it; the divisor's factor is
  \<open>8 * (2 - oversample)\<close>, 16 or 8).
\<close>

datatype usart_status_e_t = USART_STATUS_SUCCESS | USART_STATUS_FAILURE

datatype usart_compatmode_e = USART_COMPATIBLE_MODE_ASYNC | USART_COMPATIBLE_MODE_SYNC

definition USART_TXRX_MODE_RX_EN :: u32 where "USART_TXRX_MODE_RX_EN = 1"
definition USART_TXRX_MODE_TX_EN :: u32 where "USART_TXRX_MODE_TX_EN = 2"
definition USART_TXRX_MODE_RX_TX_BOTH_EN :: u32 where "USART_TXRX_MODE_RX_TX_BOTH_EN = 3"
definition USART_OVERSAMPLE_BY_16 :: u32 where "USART_OVERSAMPLE_BY_16 = 0"
definition USART_OVERSAMPLE_BY_8 :: u32 where "USART_OVERSAMPLE_BY_8 = 1"

text \<open>
  The configuration descriptor. \<open>instance_p\<close> is the member \<open>instance\<close>, a pointer to
  the peripheral's register block. The source reads a member \<open>txrxmod\<close> beside
  \<open>txrxmode\<close>; it is kept as a member of its own.
\<close>

record usart_config_st_t =
  instance_p :: u32
  txrxmode :: u32
  txrxmod :: u32
  parity_en :: u32
  parity :: u32
  wordlen :: u32
  oversample :: u32
  stopbits :: u32
  compatmode :: usart_compatmode_e
  baudrate :: u32

text \<open>The alternate-function write \<open>GPIOA->AFR[tmp] |= ...\<close> for a pin and a code.\<close>

definition AFR_write :: "u8 \<Rightarrow> u32 \<Rightarrow> mcu \<Rightarrow> mcu" where
  "AFR_write gpio_pin af s =
     (let tmp = unat gpio_pin div 8
      in GPIO_upd GPIOA (\<lambda>g. g\<lparr>AFR := (AFR g)(tmp := AFR g tmp OR
           ((AFR g tmp AND NOT (push_bit (unat gpio_pin * 4) 0xF)) OR
            push_bit (unat gpio_pin * 4) af))\<rparr>) s)"

text \<open>
  \<open>usart_config\<close>, block by block in the order of the source. Three things the
  source names are declared nowhere in it and are parameters here: the port \<open>GPIOx\<close>
  of the transmit pin's electrical settings, and the values \<open>brr_by_16\<close> and
  \<open>brr_by_8\<close> that the two floating-point baud-rate computations (from \<open>sys_clock\<close>
  and the descriptor) would store in the baud-rate register. A shift \<open>x << n\<close> with
  \<open>n\<close> beyond the width gives 0, an index of \<open>AFR\<close> beyond 1 the words behind the
  array.
\<close>

text \<open>Enable the USARTx/UARTx peripheral clock.\<close>

definition usart_clock_enable :: "u32 \<Rightarrow> mcu \<Rightarrow> mcu" where
  "usart_clock_enable inst s =
     (if USART1 = inst \<or> USART6 = inst then
        let tmp = (of_int (c_div (ptr_diff sizeof_USART_TypeDef inst USART1)
                     (ptr_diff sizeof_USART_TypeDef USART6 USART1)) :: u32)
        in s\<lparr>RCC_APB2ENR := RCC_APB2ENR s OR
               ((RCC_APB2ENR s AND NOT (push_bit RCC_APB2ENR_USART1EN_Pos 3)) OR
                push_bit (unat (of_nat RCC_APB2ENR_USART1EN_Pos + tmp)) 1)\<rparr>
      else
        let tmp = (of_int (c_div (ptr_diff sizeof_USART_TypeDef inst USART2)
                     (ptr_diff sizeof_USART_TypeDef USART3 USART2)) :: u32)
        in s\<lparr>RCC_APB1ENR := RCC_APB1ENR s OR
               ((RCC_APB1ENR s AND NOT (push_bit RCC_APB1ENR_USART2EN_Pos 0xF)) OR
                push_bit (unat (of_nat RCC_APB1ENR_USART2EN_Pos + tmp)) 1)\<rparr>)"

text \<open>Enable the GPIO clock of a port (once for Tx, once for Rx).\<close>

definition gpio_clock_enable :: "u32 \<Rightarrow> mcu \<Rightarrow> mcu" where
  "gpio_clock_enable GPIO_p s =
     s\<lparr>RCC_AHB1ENR := RCC_AHB1ENR s OR
        push_bit (unat (of_int (c_div (ptr_diff sizeof_GPIO_TypeDef GPIO_p GPIOA)
                    (ptr_diff sizeof_GPIO_TypeDef GPIOB GPIOA)) :: u32)) 1\<rparr>"

text \<open>Set a GPIO pin to alternate-function mode (once for Tx, once for Rx).\<close>

definition gpio_mode_AF :: "u32 \<Rightarrow> u8 \<Rightarrow> mcu \<Rightarrow> mcu" where
  "gpio_mode_AF GPIO_p gpio_pin s =
     GPIO_upd GPIO_p (\<lambda>g. g\<lparr>MODER := MODER g OR
        ((MODER g AND NOT (push_bit (unat gpio_pin * 2) 3)) OR
         push_bit (unat gpio_pin * 2) 2)\<rparr>) s"

text \<open>Output type, speed and pull-up/pull-down of the Tx pin, on \<open>GPIOx\<close>.\<close>

definition tx_pin_settings :: "u32 \<Rightarrow> u8 \<Rightarrow> mcu \<Rightarrow> mcu" where
  "tx_pin_settings GPIOx tx_gpio_pin s =
     (let s1 = GPIO_upd GPIOx (\<lambda>g. g\<lparr>OTYPER := OTYPER g OR
                  (OTYPER g AND NOT (push_bit (unat tx_gpio_pin) 1))\<rparr>) s;
          s2 = GPIO_upd GPIOx (\<lambda>g. g\<lparr>OSPEEDR := OSPEEDR g OR
                  ((OSPEEDR g AND NOT (push_bit (unat tx_gpio_pin * 2) 3)) OR
                   push_bit (unat tx_gpio_pin * 2) 3)\<rparr>) s1;
          s3 = GPIO_upd GPIOx (\<lambda>g. g\<lparr>PUPDR := PUPDR g OR
                  (PUPDR g AND NOT (push_bit (unat tx_gpio_pin * 2) 3))\<rparr>) s2
      in s3)"

text \<open>The alternate function of the pin, 7 or 8 by instance, on \<open>GPIOA\<close>.\<close>

definition af_mux :: "usart_config_st_t \<Rightarrow> u8 \<Rightarrow> u8 \<Rightarrow> mcu \<Rightarrow> mcu" where
  "af_mux usart_cfg tx_gpio_pin rx_gpio_pin s =
     (if USART1 = instance_p usart_cfg \<or> USART2 = instance_p usart_cfg \<or>
         USART3 = instance_p usart_cfg then
        (if USART_TXRX_MODE_TX_EN = txrxmode usart_cfg \<or>
            USART_TXRX_MODE_RX_TX_BOTH_EN = txrxmode usart_cfg
         then AFR_write tx_gpio_pin 7 s
         else if USART_TXRX_MODE_RX_TX_BOTH_EN = txrxmode usart_cfg \<or>
                 USART_TXRX_MODE_RX_EN = txrxmod usart_cfg
         then AFR_write rx_gpio_pin 7 s
         else s)
      else if UART4 = instance_p usart_cfg \<or> UART5 = instance_p usart_cfg \<or>
              USART6 = instance_p usart_cfg then
        (if USART_TXRX_MODE_TX_EN = txrxmode usart_cfg \<or>
            USART_TXRX_MODE_RX_TX_BOTH_EN = txrxmode usart_cfg
         then AFR_write tx_gpio_pin 8 s
         else if USART_TXRX_MODE_RX_TX_BOTH_EN = txrxmode usart_cfg \<or>
                 USART_TXRX_MODE_RX_EN = txrxmod usart_cfg
         then AFR_write rx_gpio_pin 8 s
         else s)
      else s)"

text \<open>Control register 1: build the value, clear the bits, or the value in.\<close>

definition program_CR1 :: "usart_config_st_t \<Rightarrow> mcu \<Rightarrow> mcu" where
  "program_CR1 usart_cfg s =
     (let tmp = push_bit USART_CR1_RE_Pos (txrxmode usart_cfg) OR
                push_bit USART_CR1_PCE_Pos (parity_en usart_cfg) OR
                push_bit USART_CR1_PS_Pos (parity usart_cfg) OR
                push_bit USART_CR1_M_Pos (wordlen usart_cfg) OR
                push_bit USART_CR1_OVER8_Pos (oversample usart_cfg) OR
                push_bit USART_CR1_UE_Pos 1;
          s1 = USART_upd (instance_p usart_cfg) (\<lambda>u. u\<lparr>CR1 := CR1 u AND
                 NOT (push_bit USART_CR1_RE_Pos 3 OR push_bit USART_CR1_PCE_Pos 1 OR
                      push_bit USART_CR1_PS_Pos 1 OR push_bit USART_CR1_M_Pos 1 OR
                      push_bit USART_CR1_OVER8_Pos 1 OR push_bit USART_CR1_UE_Pos 1)\<rparr>) s
      in USART_upd (instance_p usart_cfg) (\<lambda>u. u\<lparr>CR1 := CR1 u OR tmp\<rparr>) s1)"

text \<open>Control register 2: the stop bits.\<close>

definition program_CR2 :: "usart_config_st_t \<Rightarrow> mcu \<Rightarrow> mcu" where
  "program_CR2 usart_cfg s =
     (let tmp = push_bit USART_CR2_STOP_Pos (stopbits usart_cfg);
          s1 = USART_upd (instance_p usart_cfg) (\<lambda>u. u\<lparr>CR2 := CR2 u AND
                 NOT (push_bit USART_CR2_STOP_Pos 3)\<rparr>) s
      in USART_upd (instance_p usart_cfg) (\<lambda>u. u\<lparr>CR2 := CR2 u OR tmp\<rparr>) s1)"

text \<open>
  The baud-rate block, under the source's guard: the communication mode equal to
  \<open>USART_COMPATIBLE_MODE_ASYNC\<close> and to \<open>USART_COMPATIBLE_MODE_SYNC\<close>.
\<close>

definition program_BRR ::
  "(usart_config_st_t \<Rightarrow> u32) \<Rightarrow> (usart_config_st_t \<Rightarrow> u32) \<Rightarrow> usart_config_st_t \<Rightarrow>
   mcu \<Rightarrow> mcu" where
  "program_BRR brr_by_16 brr_by_8 usart_cfg s =
     (if USART_COMPATIBLE_MODE_ASYNC = compatmode usart_cfg \<and>
         USART_COMPATIBLE_MODE_SYNC = compatmode usart_cfg then
        (if USART_OVERSAMPLE_BY_16 = oversample usart_cfg then
           USART_upd (instance_p usart_cfg) (\<lambda>u. u\<lparr>BRR := BRR u OR brr_by_16 usart_cfg\<rparr>)
             (USART_upd (instance_p usart_cfg) (\<lambda>u. u\<lparr>BRR := 0\<rparr>) s)
         else if USART_OVERSAMPLE_BY_8 = oversample usart_cfg then
           USART_upd (instance_p usart_cfg) (\<lambda>u. u\<lparr>BRR := BRR u OR brr_by_8 usart_cfg\<rparr>)
             (USART_upd (instance_p usart_cfg) (\<lambda>u. u\<lparr>BRR := 0\<rparr>) s)
         else s)
      else s)"

text \<open>
  The routine: the blocks in sequence, then \<open>return USART_STATUS_SUCCESS\<close>. The
  statement before the return assigns to a local variable and is left out.
\<close>

definition usart_config ::
  "u32 \<Rightarrow> (usart_config_st_t \<Rightarrow> u32) \<Rightarrow> (usart_config_st_t \<Rightarrow> u32) \<Rightarrow>
   usart_config_st_t \<Rightarrow> u32 \<Rightarrow> u8 \<Rightarrow> u32 \<Rightarrow> u8 \<Rightarrow> mcu \<Rightarrow> usart_status_e_t \<times> mcu" where
  "usart_config GPIOx brr_by_16 brr_by_8 usart_cfg tx_GPIOx tx_gpio_pin rx_GPIOx rx_gpio_pin s =
     (let s1 = usart_clock_enable (instance_p usart_cfg) s;
          s2 = gpio_clock_enable tx_GPIOx s1;
          s3 = gpio_clock_enable rx_GPIOx s2;
          s4 = gpio_mode_AF tx_GPIOx tx_gpio_pin s3;
          s5 = gpio_mode_AF rx_GPIOx rx_gpio_pin s4;
          s6 = (if USART_TXRX_MODE_TX_EN = txrxmode usart_cfg \<or>
                   USART_TXRX_MODE_RX_TX_BOTH_EN = txrxmode usart_cfg
                then tx_pin_settings GPIOx tx_gpio_pin s5 else s5);
          s7 = af_mux usart_cfg tx_gpio_pin rx_gpio_pin s6;
          s8 = program_CR1 usart_cfg s7;
          s9 = program_CR2 usart_cfg s8;
          s10 = program_BRR brr_by_16 brr_by_8 usart_cfg s9
      in (USART_STATUS_SUCCESS, s10))"

text \<open>A state with every register zero, for the concrete runs below.\<close>

definition zero_GPIO :: GPIO_TypeDef where
  "zero_GPIO = \<lparr>MODER = 0, OTYPER = 0, OSPEEDR = 0, PUPDR = 0, AFR = (\<lambda>i. 0)\<rparr>"

definition zero_USART :: USART_TypeDef where
  "zero_USART = \<lparr>BRR = 0, CR1 = 0, CR2 = 0\<rparr>"

definition zero_mcu :: mcu where
  "zero_mcu = \<lparr>RCC_CR = 0, RCC_PLLCFGR = 0, RCC_CFGR = 0, RCC_AHB1ENR = 0,
     RCC_APB1ENR = 0, RCC_APB2ENR = 0, SysTick_CTRL = 0, SysTick_LOAD = 0,
     SysTick_VAL = 0, GPIO = (\<lambda>p. zero_GPIO), USART = (\<lambda>p. zero_USART)\<rparr>"

section \<open>Theorems\<close>

text \<open>
  C10. With a tick count of 0 the unsigned \<open>ticks - 1\<close> is \<open>0xFFFFFFFF\<close>, above the
  24-bit maximum: the routine returns the failure flag and the state, every register
  included, is the one it was called in.
\<close>

theorem systick_config_init_zero_ticks:
  "(0 :: u32) - 1 = 0xFFFFFFFF \<and>
   systick_config_init interrupt_mode 0 s = (RCC_FAIL_FLAG, s)"
  by (simp add: systick_config_init_def SYSTICK_RELOAD_VAL_MAX_def)

text \<open>
  C1, as amended. The check is on \<open>ticks - 1\<close>, the reload value: whenever that value,
  computed in 32 bits, is above the 24-bit maximum, the routine returns the failure flag
  and the state is the one it was called in. The smallest such non-zero tick count is
  \<open>0x01000001\<close>.
\<close>

theorem systick_config_init_rejects:
  "SYSTICK_RELOAD_VAL_MAX < ticks - 1 \<Longrightarrow>
   systick_config_init interrupt_mode ticks s = (RCC_FAIL_FLAG, s)"
  by (simp add: systick_config_init_def)

theorem systick_config_init_rejects_witness:
  "SYSTICK_RELOAD_VAL_MAX < (0x01000001 :: u32) - 1 \<and>
   systick_config_init 1 0x01000001 zero_mcu = (RCC_FAIL_FLAG, zero_mcu)"
  using systick_config_init_rejects [of "0x01000001" 1 zero_mcu]
  by (simp add: SYSTICK_RELOAD_VAL_MAX_def)

text \<open>
  C1, as stated, fails: a tick count of \<open>0x01000000\<close> asks for the reload value
  \<open>0x00FFFFFF\<close>, which the check accepts. The routine returns the success flag and
  programs the load and control registers.
\<close>

theorem systick_config_init_accepts_0x01000000:
  "systick_config_init 0 0x01000000 zero_mcu \<noteq> (RCC_FAIL_FLAG, zero_mcu) \<and>
   fst (systick_config_init 0 0x01000000 zero_mcu) = RCC_SUCCESS_FLAG \<and>
   SysTick_LOAD (snd (systick_config_init 0 0x01000000 zero_mcu)) = 0x00FFFFFF \<and>
   SysTick_LOAD zero_mcu = 0 \<and>
   SysTick_CTRL (snd (systick_config_init 0 0x01000000 zero_mcu)) = 5 \<and>
   SysTick_CTRL zero_mcu = 0"
  by (simp add: systick_config_init_def SYSTICK_RELOAD_VAL_MAX_def zero_mcu_def Let_def
      SysTick_CTRL_ENABLE_Pos_def SysTick_CTRL_TICKINT_Pos_def SysTick_CTRL_CLKSOURCE_Pos_def)

text \<open>
  C9. \<open>system_clock_setting\<close> does not read its \<open>sys_core_clock\<close> argument: two calls
  that differ only in it end in the same state, and so in the same clock-configuration
  register.
\<close>

theorem system_clock_setting_ignores_sys_core_clock:
  "system_clock_setting sys_core_clock sys_bus_clk_cfg s =
     system_clock_setting sys_core_clock' sys_bus_clk_cfg s \<and>
   RCC_CFGR (system_clock_setting sys_core_clock sys_bus_clk_cfg s) =
     RCC_CFGR (system_clock_setting sys_core_clock' sys_bus_clk_cfg s)"
  by (simp add: system_clock_setting_def)

subsection \<open>What each block of \<open>usart_config\<close> leaves alone\<close>

lemma program_BRR_skip: "program_BRR brr_by_16 brr_by_8 usart_cfg s = s"
  by (cases "compatmode usart_cfg") (simp_all add: program_BRR_def)

lemma USART_GPIO_upd: "USART (GPIO_upd p f s) = USART s"
  by (simp add: GPIO_upd_def)

lemma BRR_program_CR1: "BRR (USART (program_CR1 usart_cfg s) q) = BRR (USART s q)"
  by (simp add: program_CR1_def USART_upd_def Let_def)

lemma BRR_program_CR2: "BRR (USART (program_CR2 usart_cfg s) q) = BRR (USART s q)"
  by (simp add: program_CR2_def USART_upd_def Let_def)

lemma USART_af_mux: "USART (af_mux usart_cfg tx_gpio_pin rx_gpio_pin s) = USART s"
  by (simp add: af_mux_def AFR_write_def USART_GPIO_upd Let_def)

lemma USART_tx_pin_settings: "USART (tx_pin_settings GPIOx tx_gpio_pin s) = USART s"
  by (simp add: tx_pin_settings_def USART_GPIO_upd Let_def)

lemma USART_gpio_mode_AF: "USART (gpio_mode_AF p pin s) = USART s"
  by (simp add: gpio_mode_AF_def USART_GPIO_upd)

lemma USART_gpio_clock_enable: "USART (gpio_clock_enable p s) = USART s"
  by (simp add: gpio_clock_enable_def)

lemma USART_usart_clock_enable: "USART (usart_clock_enable inst s) = USART s"
  by (simp add: usart_clock_enable_def Let_def)

text \<open>
  C8. For every descriptor, port and pin, and whatever the undeclared names stand for,
  \<open>usart_config\<close> returns the success status; the failure value is never the result.
\<close>

theorem usart_config_returns_success:
  "fst (usart_config GPIOx brr_by_16 brr_by_8 usart_cfg tx_GPIOx tx_gpio_pin
          rx_GPIOx rx_gpio_pin s) = USART_STATUS_SUCCESS \<and>
   fst (usart_config GPIOx brr_by_16 brr_by_8 usart_cfg tx_GPIOx tx_gpio_pin
          rx_GPIOx rx_gpio_pin s) \<noteq> USART_STATUS_FAILURE"
  by (simp add: usart_config_def Let_def)

text \<open>
  C2. The guard of the baud-rate block asks the communication mode to be the
  asynchronous and the synchronous enumerator at once, so the block never runs: for
  every input the baud-rate register of every USART block is what it was before the
  call, and the result does not depend on what the baud-rate computations would yield.
\<close>

theorem usart_config_never_programs_BRR:
  "BRR (USART (snd (usart_config GPIOx brr_by_16 brr_by_8 usart_cfg tx_GPIOx tx_gpio_pin
                      rx_GPIOx rx_gpio_pin s)) p) = BRR (USART s p) \<and>
   usart_config GPIOx brr_by_16 brr_by_8 usart_cfg tx_GPIOx tx_gpio_pin rx_GPIOx rx_gpio_pin s =
   usart_config GPIOx brr_by_16' brr_by_8' usart_cfg tx_GPIOx tx_gpio_pin rx_GPIOx rx_gpio_pin s"
  by (simp add: usart_config_def Let_def program_BRR_skip BRR_program_CR1 BRR_program_CR2
      USART_af_mux USART_tx_pin_settings USART_gpio_mode_AF USART_gpio_clock_enable
      USART_usart_clock_enable)

subsection \<open>Or-assignment of a masked copy\<close>

text \<open>
  \<open>REG |= (REG & ~mask) | value\<close> is \<open>REG |= value\<close>: the masked copy adds no bit
  and removes none.
\<close>

lemma or_masked_self: "x OR ((x AND m) OR v) = x OR (v :: u32)"
  by (simp add: or.assoc [symmetric])









lemma RCC_CR_switch_on_HSI_eq:
  "RCC_CR_switch_on_HSI s = s\<lparr>RCC_CR := RCC_CR s OR 1\<rparr>"
  by (simp add: RCC_CR_switch_on_HSI_def RCC_CR_HSION_Pos_def RCC_CR_HSEON_Pos_def
      RCC_CR_PLLON_Pos_def)

text \<open>
  C5. The or-assignment to the clock control register in the HSI branch sets the
  HSI-enable bit and leaves the HSE-enable and PLL-enable bits as they were; no bit that
  was set is cleared. It is the only statement of the HSI call that writes that
  register: the call is this write, the wait for the HSI-ready flag, and the switch of
  the system clock, which writes the clock-configuration register only.
\<close>

theorem HSI_write_clears_no_enable_bit:
  "bit (RCC_CR (RCC_CR_switch_on_HSI s)) RCC_CR_HSION_Pos \<and>
   bit (RCC_CR (RCC_CR_switch_on_HSI s)) RCC_CR_HSEON_Pos = bit (RCC_CR s) RCC_CR_HSEON_Pos \<and>
   bit (RCC_CR (RCC_CR_switch_on_HSI s)) RCC_CR_PLLON_Pos = bit (RCC_CR s) RCC_CR_PLLON_Pos \<and>
   RCC_CR (RCC_CR_switch_on_HSI s) AND RCC_CR s = RCC_CR s \<and>
   RCC_System_Clock_Source_Config hw SYS_CLOCK_SOURCE_HSI pll_clock_source
       rcc_pll_config_param_t s =
     Option.bind (wait_until hw HSI_ready (RCC_CR_switch_on_HSI s))
       (\<lambda>s1. map_option
          (\<lambda>s2. Inr (s2\<lparr>RCC_CFGR := RCC_CFGR s2 AND NOT (push_bit RCC_CFGR_HPRE_Pos 0xF)\<rparr>,
                     rcc_pll_config_param_t))
          (wait_until hw (clock_switched SYS_CLOCK_SOURCE_HSI)
             (s1\<lparr>RCC_CFGR := RCC_CFGR s1 OR
                  ((RCC_CFGR s1 AND NOT (push_bit RCC_CFGR_SW_Pos 3)) OR
                   push_bit RCC_CFGR_SW_Pos SYS_CLOCK_SOURCE_HSI)\<rparr>)))"
proof -
  have w: "RCC_CR (RCC_CR_switch_on_HSI s) = RCC_CR s OR 1"
    by (simp add: RCC_CR_switch_on_HSI_eq)
  have b0: "bit (RCC_CR s OR 1) RCC_CR_HSION_Pos"
    by (simp add: RCC_CR_HSION_Pos_def bit_simps)
  have b16: "bit (RCC_CR s OR 1) RCC_CR_HSEON_Pos = bit (RCC_CR s) RCC_CR_HSEON_Pos"
    by (simp add: RCC_CR_HSEON_Pos_def bit_simps)
  have b24: "bit (RCC_CR s OR 1) RCC_CR_PLLON_Pos = bit (RCC_CR s) RCC_CR_PLLON_Pos"
    by (simp add: RCC_CR_PLLON_Pos_def bit_simps)
  have keep: "(RCC_CR s OR 1) AND RCC_CR s = RCC_CR s"
    by (simp add: and.commute)
  have run: "RCC_System_Clock_Source_Config hw SYS_CLOCK_SOURCE_HSI pll_clock_source
       rcc_pll_config_param_t s =
     Option.bind (wait_until hw HSI_ready (RCC_CR_switch_on_HSI s))
       (\<lambda>s1. map_option
          (\<lambda>s2. Inr (s2\<lparr>RCC_CFGR := RCC_CFGR s2 AND NOT (push_bit RCC_CFGR_HPRE_Pos 0xF)\<rparr>,
                     rcc_pll_config_param_t))
          (wait_until hw (clock_switched SYS_CLOCK_SOURCE_HSI)
             (s1\<lparr>RCC_CFGR := RCC_CFGR s1 OR
                  ((RCC_CFGR s1 AND NOT (push_bit RCC_CFGR_SW_Pos 3)) OR
                   push_bit RCC_CFGR_SW_Pos SYS_CLOCK_SOURCE_HSI)\<rparr>)))"
    by (cases "wait_until hw HSI_ready (RCC_CR_switch_on_HSI s)")
       (simp_all add: RCC_System_Clock_Source_Config_def Let_def)
  show ?thesis
    unfolding w using b0 b16 b24 keep run by simp
qed

text \<open>What \<open>MCO_Config\<close> does for channel 1, in one step.\<close>

lemma MCO_Config_channel_1:
  "MCO_Config MCO_CHANNEL_1 mco_clock_source mco_prescaler s =
     GPIO_upd GPIOA (\<lambda>g. g\<lparr>MODER := MODER g OR 0x20000, OSPEEDR := OSPEEDR g OR 0x30000\<rparr>)
       (s\<lparr>RCC_AHB1ENR := RCC_AHB1ENR s OR 1,
          RCC_CFGR := RCC_CFGR s OR push_bit 21 mco_clock_source OR push_bit 24 mco_prescaler\<rparr>)"
  by (simp add: MCO_Config_def Let_def or_masked_self GPIO_upd_def
      RCC_AHB1ENR_GPIOAEN_Pos_def GPIO_MODER_MODER8_Pos_def GPIO_OSPEEDR_OSPEED8_Pos_def
      RCC_CFGR_MCO1_Pos_def RCC_CFGR_MCO1PRE_Pos_def fun_eq_iff or.assoc)

text \<open>
  C4 does not hold of the code. Called for channel 1 with clock source 2 and prescaler
  6 in a state where pin 8 is an output (mode 1), the MCO1 source is 1 and the MCO1
  prescaler is 5, \<open>MCO_Config\<close> leaves the mode field at 3, the source field at 3 and
  the prescaler field at 7: the old bits of each field stay set.
\<close>

theorem MCO_Config_channel_1_keeps_old_field_bits:
  "MODER (GPIO (MCO_Config MCO_CHANNEL_1 2 6
      (GPIO_upd GPIOA (\<lambda>g. g\<lparr>MODER := 0x00010000\<rparr>) (zero_mcu\<lparr>RCC_CFGR := 0x05200000\<rparr>)))
      GPIOA) = 0x00030000 \<and>
   RCC_CFGR (MCO_Config MCO_CHANNEL_1 2 6
      (GPIO_upd GPIOA (\<lambda>g. g\<lparr>MODER := 0x00010000\<rparr>) (zero_mcu\<lparr>RCC_CFGR := 0x05200000\<rparr>)))
     = 0x07600000 \<and>
   drop_bit GPIO_MODER_MODER8_Pos (0x00030000 :: u32) AND 3 = 3 \<and>
   drop_bit RCC_CFGR_MCO1_Pos (0x07600000 :: u32) AND 3 = 3 \<and>
   drop_bit RCC_CFGR_MCO1PRE_Pos (0x07600000 :: u32) AND 7 = 7"
  by (simp add: MCO_Config_channel_1 GPIO_upd_def zero_mcu_def zero_GPIO_def
      GPIO_MODER_MODER8_Pos_def RCC_CFGR_MCO1_Pos_def RCC_CFGR_MCO1PRE_Pos_def)

subsection \<open>The delays\<close>





subsection \<open>Busy-waits\<close>

text \<open>
  What the hardware never changes is, after a busy-wait that ends, what it was before
  it. A busy-wait whose condition holds at the first read ends there.
\<close>

lemma wait_until_keeps_aux:
  "wait_until hw c s = Some s' \<Longrightarrow> (\<forall>t. f (hw t) = f t) \<longrightarrow> f s' = f s"
proof (rule wait_until.raw_induct
    [where P = "\<lambda>hw c s s'. (\<forall>t. f (hw t) = f t) \<longrightarrow> f s' = f s"])
  fix wait :: "(mcu \<Rightarrow> mcu) \<Rightarrow> (mcu \<Rightarrow> bool) \<Rightarrow> mcu \<Rightarrow> mcu option" and hw c s y
  assume IH: "\<And>hw c s y. wait hw c s = Some y \<Longrightarrow> (\<forall>t. f (hw t) = f t) \<longrightarrow> f y = f s"
    and step: "(if c (hw s) then Some (hw s) else wait hw c (hw s)) = Some y"
  show "(\<forall>t. f (hw t) = f t) \<longrightarrow> f y = f s"
  proof
    assume inv: "\<forall>t. f (hw t) = f t"
    show "f y = f s"
    proof (cases "c (hw s)")
      case True
      with step inv show ?thesis by auto
    next
      case False
      with step have "wait hw c (hw s) = Some y" by simp
      from IH [OF this] inv show ?thesis by simp
    qed
  qed
qed

lemma wait_until_keeps:
  "wait_until hw c s = Some s' \<Longrightarrow> (\<And>t. f (hw t) = f t) \<Longrightarrow> f s' = f s"
  using wait_until_keeps_aux [of hw c s s' f] by simp









text \<open>
  The whole HSI call, on hardware that does not touch the three enable bits itself: when
  it returns, the HSI-enable bit is set and the HSE-enable and PLL-enable bits are as
  they were.
\<close>

lemma HSI_call_keeps_enable_bits:
  assumes run: "RCC_System_Clock_Source_Config hw SYS_CLOCK_SOURCE_HSI pll_clock_source p s =
                  Some (Inr (s', p'))"
    and hw: "\<forall>t. RCC_CR (hw t) AND 0x01010001 = RCC_CR t AND 0x01010001"
  shows "RCC_CR s' AND 0x01010001 = (RCC_CR s AND 0x01010001) OR 1"
proof -
  have keep: "wait_until hw c t = Some t' \<Longrightarrow>
      RCC_CR t' AND 0x01010001 = RCC_CR t AND 0x01010001" for c t t'
    using hw by (auto dest: wait_until_keeps [where f = "\<lambda>t. RCC_CR t AND 0x01010001"])
  have w: "RCC_CR (RCC_CR_switch_on_HSI s) AND 0x01010001 = (RCC_CR s AND 0x01010001) OR 1"
    by (simp add: RCC_CR_switch_on_HSI_def RCC_CR_HSION_Pos_def RCC_CR_HSEON_Pos_def
        RCC_CR_PLLON_Pos_def bit.conj_disj_distrib2)
  from run show ?thesis
    by (auto simp: RCC_System_Clock_Source_Config_def Let_def w [symmetric]
        split: Option.bind_splits if_splits dest!: keep)
qed

end
